theory Spec2Isabelle
  imports Main "HOL-Library.AList" "HOL-Library.Multiset"
begin

section \<open>A shallow embedding of the Rotten Tomatoes client (rottentomatoes.py)\<close>

text \<open>
  The module is a Python 2 wrapper class \<^verbatim>\<open>RT\<close>: its constructor resolves an API key and
  builds three URLs, and each method assembles a request URL, fetches it, gunzips the
  body when it is gzip-framed and decodes it as JSON.

  Python values are modelled as follows.
  \<^item> A byte string (\<^verbatim>\<open>str\<close>) is a \<open>string\<close>; decoded JSON text is kept as a \<open>string\<close> too.
  \<^item> The scalar arguments a caller passes (version, movie id, query options) are a
    \<open>pyval\<close>: a string, an integer or a float. Floats are an abstract type \<open>'f\<close>; how a
    float prints is a parameter of the environment.
  \<^item> A decoded JSON document is a \<open>json\<close> tree; \<open>JNull\<close> is Python's \<^verbatim>\<open>None\<close>.
  \<^item> A \<^verbatim>\<open>dict\<close> of query options is an association list with one entry per key;
    so is a decoded JSON object.
  \<^item> A raised exception is the \<open>Inl\<close> of a sum; the constructors carry
    the names of the Python exceptions. The specification calls \<^verbatim>\<open>AssertionError\<close> the
    configuration error, \<^verbatim>\<open>ValueError\<close> the decode error, \<^verbatim>\<open>KeyError\<close> the lookup error,
    \<^verbatim>\<open>IndexError\<close> the index-out-of-range error and \<^verbatim>\<open>URLError\<close> the transport error.
  The difference between \<^verbatim>\<open>str\<close> and \<^verbatim>\<open>unicode\<close> is not modelled, nor is running Python
  with assertions switched off.
\<close>

type_synonym bytes = string

datatype 'f pyval = PStr string | PInt int | PFloat 'f

datatype error = AssertionError | URLError | ValueError | KeyError | IndexError | TypeError

datatype 'f json = JNull | JBool bool | JInt int | JFloat 'f | JStr string
  | JArr "'f json list" | JObj "(string \<times> 'f json) list"

type_synonym 'f dict = "(string \<times> 'f pyval) list"

subsection \<open>The libraries the module calls\<close>

text \<open>
  The network, zlib, the JSON decoder, float printing and the iteration order of a
  Python 2 dict are outside the module. They are the fields of an environment:
  \<^item> \<open>urlopen_read env url\<close> is \<^verbatim>\<open>urlopen(url).read()\<close>: the body, or a transport error;
  \<^item> \<open>zlib_decompress env data wbits\<close> is \<^verbatim>\<open>zlib.decompress(data, wbits)\<close>, \<open>None\<close> when it
    raises \<^verbatim>\<open>zlib.error\<close>;
  \<^item> \<open>json_loads env text\<close> is \<^verbatim>\<open>json.loads(text)\<close>, \<open>None\<close> when it raises \<^verbatim>\<open>ValueError\<close>;
  \<^item> \<open>float_str env x\<close> is \<^verbatim>\<open>str(x)\<close> of a float;
  \<^item> \<open>dict_items env d\<close> is \<^verbatim>\<open>d.items()\<close>: the entries of \<open>d\<close> in the order the
    interpreter iterates them.
\<close>

record 'f env =
  urlopen_read :: "string \<Rightarrow> error + bytes"
  zlib_decompress :: "bytes \<Rightarrow> nat \<Rightarrow> bytes option"
  json_loads :: "bytes \<Rightarrow> 'f json option"
  float_str :: "'f \<Rightarrow> string"
  dict_items :: "'f dict \<Rightarrow> 'f dict"

definition MAX_WBITS :: nat where
  "MAX_WBITS = 15"

text \<open>\<^verbatim>\<open>str(n)\<close> of an integer: its decimal digits, with a minus sign when negative.\<close>

definition digit_char :: "nat \<Rightarrow> char" where
  "digit_char n = ''0123456789'' ! n"

fun str_nat :: "nat \<Rightarrow> string" where
  "str_nat n = (if n < 10 then [digit_char n]
                else str_nat (n div 10) @ [digit_char (n mod 10)])"

declare str_nat.simps [simp del]

definition str_int :: "int \<Rightarrow> string" where
  "str_int i = (if i < 0 then CHR ''-'' # str_nat (nat (- i)) else str_nat (nat i))"

text \<open>\<^verbatim>\<open>str(v)\<close>, which is also what \<^verbatim>\<open>'%s' % v\<close> inserts.\<close>

definition py_str :: "'f env \<Rightarrow> 'f pyval \<Rightarrow> string" where
  "py_str env v = (case v of PStr s \<Rightarrow> s | PInt n \<Rightarrow> str_int n | PFloat x \<Rightarrow> float_str env x)"

text \<open>
  \<^verbatim>\<open>urllib.quote\<close>, \<^verbatim>\<open>urllib.quote_plus\<close> and \<^verbatim>\<open>urllib.urlencode\<close> of Python 2.7: a character
  that is a letter, a digit or one of \<^verbatim>\<open>_.-\<close> (or listed in \<open>safe\<close>) is kept, any other
  becomes \<^verbatim>\<open>%XX\<close>; \<open>quote_plus\<close> turns a space into \<^verbatim>\<open>+\<close>; \<open>urlencode\<close> joins the quoted
  \<^verbatim>\<open>key=value\<close> pairs of the dict with \<^verbatim>\<open>&\<close>.
\<close>

definition always_safe :: string where
  "always_safe = ''ABCDEFGHIJKLMNOPQRSTUVWXYZabcdefghijklmnopqrstuvwxyz0123456789_.-''"

definition hex_digit :: "nat \<Rightarrow> char" where
  "hex_digit n = ''0123456789ABCDEF'' ! n"

definition percent_hex :: "char \<Rightarrow> string" where
  "percent_hex c = [CHR ''%'', hex_digit (of_char c div 16), hex_digit (of_char c mod 16)]"

definition quote :: "string \<Rightarrow> string \<Rightarrow> string" where
  "quote s safe = concat (map (\<lambda>c. if c \<in> set (always_safe @ safe) then [c] else percent_hex c) s)"

definition replace_char :: "char \<Rightarrow> char \<Rightarrow> string \<Rightarrow> string" where
  "replace_char a b s = map (\<lambda>c. if c = a then b else c) s"

definition quote_plus :: "string \<Rightarrow> string" where
  "quote_plus s = (if CHR '' '' \<in> set s
                   then replace_char (CHR '' '') (CHR ''+'') (quote s '' '')
                   else quote s [])"

fun join :: "string \<Rightarrow> string list \<Rightarrow> string" where
  "join sep [] = []"
| "join sep [x] = x"
| "join sep (x # y # ys) = x @ sep @ join sep (y # ys)"

definition query_pair :: "'f env \<Rightarrow> string \<times> 'f pyval \<Rightarrow> string" where
  "query_pair env kv = quote_plus (fst kv) @ ''='' @ quote_plus (py_str env (snd kv))"

definition urlencode :: "'f env \<Rightarrow> 'f dict \<Rightarrow> string" where
  "urlencode env query = join ''&'' (map (query_pair env) (dict_items env query))"

text \<open>
  Subscription \<^verbatim>\<open>data[key]\<close> of a decoded document by a string key: only a dict
  (a JSON object) can be indexed by a string, a missing key raises \<^verbatim>\<open>KeyError\<close>, and
  a list, a string, a number, a boolean or \<^verbatim>\<open>None\<close> raises \<^verbatim>\<open>TypeError\<close>.
\<close>

fun subscript_str :: "'f json \<Rightarrow> string \<Rightarrow> error + 'f json" where
  "subscript_str (JObj kvs) k = (case map_of kvs k of None \<Rightarrow> Inl KeyError | Some v \<Rightarrow> Inr v)"
| "subscript_str _ k = Inl TypeError"

text \<open>
  Subscription \<^verbatim>\<open>data[i]\<close> by an integer: a list and a string are sequences (a negative
  index counts from the end, an index out of range raises \<^verbatim>\<open>IndexError\<close>); the keys of a
  decoded JSON object are strings, so an integer is never among them.
\<close>

definition seq_index :: "'a list \<Rightarrow> int \<Rightarrow> error + 'a" where
  "seq_index xs i =
     (if 0 \<le> i \<and> i < int (length xs) then Inr (xs ! nat i)
      else if i < 0 \<and> - int (length xs) \<le> i then Inr (xs ! nat (int (length xs) + i))
      else Inl IndexError)"

fun subscript_int :: "'f json \<Rightarrow> int \<Rightarrow> error + 'f json" where
  "subscript_int (JArr xs) i = seq_index xs i"
| "subscript_int (JStr s) i = (case seq_index s i of Inl e \<Rightarrow> Inl e | Inr c \<Rightarrow> Inr (JStr [c]))"
| "subscript_int (JObj kvs) i = Inl KeyError"
| "subscript_int _ i = Inl TypeError"

subsection \<open>The module\<close>

text \<open>
  The module-level \<^verbatim>\<open>API_KEY\<close>: the value imported from \<^verbatim>\<open>rottentomatoes_api_key\<close>, or,
  when that import fails (\<open>bundled = None\<close>), \<^verbatim>\<open>os.environ.get('RT_KEY')\<close>, which is
  \<open>None\<close> when the variable is not set.
\<close>

definition API_KEY :: "string option \<Rightarrow> string option \<Rightarrow> string option" where
  "API_KEY bundled rt_key = (case bundled of Some k \<Rightarrow> Some k | None \<Rightarrow> rt_key)"

record 'f RT =
  api_key :: string
  version :: "'f pyval"
  BASE_URL :: string
  lists_url :: string
  movie_url :: string

text \<open>
  \<^verbatim>\<open>RT.__init__(self, api_key='', version=1.0)\<close>. \<open>module_key\<close> is the module's
  \<^verbatim>\<open>API_KEY\<close>. The assertion \<^verbatim>\<open>self.api_key != None\<close> is the only check.
\<close>

definition RT_init :: "'f env \<Rightarrow> string option \<Rightarrow> string \<Rightarrow> 'f pyval \<Rightarrow> error + 'f RT" where
  "RT_init env module_key api_key_arg version_arg =
     (case (if api_key_arg = [] then module_key else Some api_key_arg) of
        None \<Rightarrow> Inl AssertionError
      | Some key \<Rightarrow>
          (let v = (case version_arg of PFloat x \<Rightarrow> PStr (float_str env x) | _ \<Rightarrow> version_arg);
               base = ''http://api.rottentomatoes.com/api/public/v'' @ py_str env v @ ''/''
           in Inr \<lparr>api_key = key, version = v, BASE_URL = base,
                   lists_url = base @ ''lists'', movie_url = base @ ''movies''\<rparr>))"

text \<open>\<^verbatim>\<open>RT._load_json_from_url\<close>: fetch, try to gunzip, decode.\<close>

definition load_json_from_url :: "'f env \<Rightarrow> string \<Rightarrow> error + 'f json" where
  "load_json_from_url env url =
     (case urlopen_read env url of
        Inl e \<Rightarrow> Inl e
      | Inr response \<Rightarrow>
          (let response' = (case zlib_decompress env response (16 + MAX_WBITS) of
                              Some plain \<Rightarrow> plain
                            | None \<Rightarrow> response)
           in case json_loads env response' of
                None \<Rightarrow> Inl ValueError
              | Some data \<Rightarrow> Inr data))"

text \<open>\<^verbatim>\<open>RT.search(self, query, datatype='movies', **kwargs)\<close>.\<close>

definition search_kwargs :: "'f RT \<Rightarrow> string \<Rightarrow> 'f dict \<Rightarrow> 'f dict" where
  "search_kwargs self query kwargs =
     AList.update ''q'' (PStr query) (AList.update ''apikey'' (PStr (api_key self)) kwargs)"

definition search_url :: "'f env \<Rightarrow> 'f RT \<Rightarrow> string \<Rightarrow> 'f dict \<Rightarrow> string" where
  "search_url env self query kwargs =
     concat [movie_url self, ''?'', urlencode env (search_kwargs self query kwargs)]"

definition search :: "'f env \<Rightarrow> 'f RT \<Rightarrow> string \<Rightarrow> string \<Rightarrow> 'f dict \<Rightarrow> error + 'f json" where
  "search env self query datatype kwargs =
     (case load_json_from_url env (search_url env self query kwargs) of
        Inl e \<Rightarrow> Inl e
      | Inr data \<Rightarrow> subscript_str data datatype)"

text \<open>
  \<^verbatim>\<open>RT.lists(self, directory=None, sub=None, **kwargs)\<close>. \<open>None\<close> and the empty string
  are the falsy values of \<open>directory\<close> and \<open>sub\<close>.
\<close>

definition lists_kwargs :: "'f RT \<Rightarrow> 'f dict \<Rightarrow> 'f dict" where
  "lists_kwargs self kwargs = AList.update ''apikey'' (PStr (api_key self)) kwargs"

definition lists_path :: "string option \<Rightarrow> string option \<Rightarrow> string list" where
  "lists_path directory sub =
     (case directory of
        None \<Rightarrow> []
      | Some d \<Rightarrow>
          if d = [] then []
          else (case sub of
                  None \<Rightarrow> [''/'' @ d]
                | Some s \<Rightarrow> if s = [] then [''/'' @ d] else [''/'' @ d @ ''/'' @ s]))"

definition lists_request_url ::
  "'f env \<Rightarrow> 'f RT \<Rightarrow> string option \<Rightarrow> string option \<Rightarrow> 'f dict \<Rightarrow> string" where
  "lists_request_url env self directory sub kwargs =
     concat ([lists_url self] @ lists_path directory sub
             @ [''.json?'', urlencode env (lists_kwargs self kwargs)])"

definition lists_rt ::
  "'f env \<Rightarrow> 'f RT \<Rightarrow> string option \<Rightarrow> string option \<Rightarrow> 'f dict \<Rightarrow> error + 'f json" where
  "lists_rt env self directory sub kwargs =
     load_json_from_url env (lists_request_url env self directory sub kwargs)"

text \<open>\<^verbatim>\<open>RT.info(self, id_num, specific_info=None)\<close>.\<close>

definition info_url :: "'f env \<Rightarrow> 'f RT \<Rightarrow> 'f pyval \<Rightarrow> string option \<Rightarrow> string" where
  "info_url env self id_num specific_info =
     (let id_num' = (case id_num of PInt n \<Rightarrow> PStr (str_int n) | _ \<Rightarrow> id_num)
      in concat ([movie_url self, ''/'' @ py_str env id_num']
                 @ (case specific_info of
                      None \<Rightarrow> []
                    | Some s \<Rightarrow> if s = [] then [] else [''/'' @ s])
                 @ [''.json?'', urlencode env [(''apikey'', PStr (api_key self))]]))"

definition info :: "'f env \<Rightarrow> 'f RT \<Rightarrow> 'f pyval \<Rightarrow> string option \<Rightarrow> error + 'f json" where
  "info env self id_num specific_info =
     load_json_from_url env (info_url env self id_num specific_info)"

text \<open>
  \<^verbatim>\<open>RT.new(self, kind='movies', **kwargs)\<close>: a \<open>kind\<close> that is neither \<^verbatim>\<open>'movies'\<close> nor
  \<^verbatim>\<open>'dvds'\<close> falls off the end of the function, which returns \<^verbatim>\<open>None\<close>.
\<close>

definition new :: "'f env \<Rightarrow> 'f RT \<Rightarrow> string \<Rightarrow> 'f dict \<Rightarrow> error + 'f json" where
  "new env self kind kwargs =
     (if kind = ''movies'' then
        (case lists_rt env self (Some ''movies'') (Some ''opening'') kwargs of
           Inl e \<Rightarrow> Inl e | Inr data \<Rightarrow> subscript_str data ''movies'')
      else if kind = ''dvds'' then
        (case lists_rt env self (Some ''dvds'') (Some ''new_releases'') kwargs of
           Inl e \<Rightarrow> Inl e | Inr data \<Rightarrow> subscript_str data ''movies'')
      else Inr JNull)"

text \<open>
  \<^verbatim>\<open>RT.movies(self, sub='in_theaters', **kwargs)\<close> and
  \<^verbatim>\<open>RT.dvds(self, sub='new_releases', **kwargs)\<close>; \<open>sub\<close> is the value the call binds.
\<close>

definition movies :: "'f env \<Rightarrow> 'f RT \<Rightarrow> string option \<Rightarrow> 'f dict \<Rightarrow> error + 'f json" where
  "movies env self sub kwargs =
     (case lists_rt env self (Some ''movies'') sub kwargs of
        Inl e \<Rightarrow> Inl e | Inr data \<Rightarrow> subscript_str data ''movies'')"

definition dvds :: "'f env \<Rightarrow> 'f RT \<Rightarrow> string option \<Rightarrow> 'f dict \<Rightarrow> error + 'f json" where
  "dvds env self sub kwargs =
     (case lists_rt env self (Some ''dvds'') sub kwargs of
        Inl e \<Rightarrow> Inl e | Inr data \<Rightarrow> subscript_str data ''movies'')"

text \<open>\<^verbatim>\<open>RT.feeling_lucky(self, search_term)\<close>.\<close>

definition feeling_lucky :: "'f env \<Rightarrow> 'f RT \<Rightarrow> string \<Rightarrow> error + 'f json" where
  "feeling_lucky env self search_term =
     (case search env self search_term ''movies'' [(''page_limit'', PInt 1)] of
        Inl e \<Rightarrow> Inl e
      | Inr found \<Rightarrow> subscript_int found 0)"

subsection \<open>Notions the properties are stated with\<close>

text \<open>
  The delegation the specification describes for the convenience methods:
  \<^verbatim>\<open>lists(directory, sub, options)["movies"]\<close>.
\<close>

definition lists_movies_key ::
  "'f env \<Rightarrow> 'f RT \<Rightarrow> string \<Rightarrow> string option \<Rightarrow> 'f dict \<Rightarrow> error + 'f json" where
  "lists_movies_key env self directory sub options =
     (case lists_rt env self (Some directory) sub options of
        Inl e \<Rightarrow> Inl e
      | Inr payload \<Rightarrow> subscript_str payload ''movies'')"







subsection \<open>What is assumed of the libraries\<close>

text \<open>
  Two facts about zlib and the JSON decoder: with \<^verbatim>\<open>wbits = 16 + MAX_WBITS\<close> zlib accepts
  only the gzip container, whose first two bytes are the magic number \<^verbatim>\<open>1F 8B\<close>; and a text
  the JSON decoder accepts does not begin with the control character \<^verbatim>\<open>1F\<close>.
\<close>

definition gzip_json_library :: "'f env \<Rightarrow> bool" where
  "gzip_json_library env \<longleftrightarrow>
     (\<forall>d plain. zlib_decompress env d (16 + MAX_WBITS) = Some plain
        \<longrightarrow> take 2 d = [CHR 0x1F, CHR 0x8B]) \<and>
     (\<forall>d v. json_loads env d = Some v \<longrightarrow> take 1 d \<noteq> [CHR 0x1F])"


subsection \<open>A small environment to run the module in\<close>

text \<open>
  A server that answers from a table of pages, a gunzip that accepts the magic number
  followed by the stored text, a decoder that knows three documents, floats \<open>n.0\<close>
  and dicts that iterate in insertion order.
\<close>

definition serve :: "(string \<times> bytes) list \<Rightarrow> string \<Rightarrow> error + bytes" where
  "serve pages url = (case map_of pages url of None \<Rightarrow> Inl URLError | Some body \<Rightarrow> Inr body)"

definition stub_gunzip :: "bytes \<Rightarrow> nat \<Rightarrow> bytes option" where
  "stub_gunzip d wbits =
     (if wbits = 31 \<and> take 2 d = [CHR 0x1F, CHR 0x8B] then Some (drop 2 d) else None)"

definition stub_loads :: "bytes \<Rightarrow> nat json option" where
  \<open>stub_loads d =
     (if d = ''[]'' then Some (JArr [])
      else if d = ''{"total": 5, "movies": []}''
        then Some (JObj [(''total'', JInt 5), (''movies'', JArr [])])
      else if d = ''{"movies": [{"id": "13153"}]}''
        then Some (JObj [(''movies'', JArr [JObj [(''id'', JStr ''13153'')]])])
      else None)\<close>

definition stub_env :: "(string \<times> bytes) list \<Rightarrow> nat env" where
  "stub_env pages =
     \<lparr>urlopen_read = serve pages, zlib_decompress = stub_gunzip, json_loads = stub_loads,
      float_str = (\<lambda>n. str_nat n @ ''.0''), dict_items = (\<lambda>d. d)\<rparr>"

text \<open>
  A client as \<open>RT_init\<close> builds it for the key \<^verbatim>\<open>KEY\<close> and the default version
  \<^verbatim>\<open>1.0\<close>, and the pages of a server it can talk to.
\<close>

definition demo_rt :: "nat RT" where
  "demo_rt =
     \<lparr>api_key = ''KEY'', version = PStr ''1.0'',
      BASE_URL = ''http://api.rottentomatoes.com/api/public/v1.0/'',
      lists_url = ''http://api.rottentomatoes.com/api/public/v1.0/lists'',
      movie_url = ''http://api.rottentomatoes.com/api/public/v1.0/movies''\<rparr>"

definition demo_pages :: "(string \<times> bytes) list" where
  \<open>demo_pages =
     [(''http://api.rottentomatoes.com/api/public/v1.0/movies?apikey=KEY&q=the+lion+king'',
         ''{"movies": [{"id": "13153"}]}''),
      (''http://api.rottentomatoes.com/api/public/v1.0/movies?apikey=KEY&q=x'',
         ''{"total": 5, "movies": []}''),
      (''http://api.rottentomatoes.com/api/public/v1.0/movies?apikey=KEY&q=y'',
         ''[]''),
      (''http://api.rottentomatoes.com/api/public/v1.0/movies?page_limit=1&apikey=KEY&q=memento'',
         ''{"movies": [{"id": "13153"}]}''),
      (''http://api.rottentomatoes.com/api/public/v1.0/movies?page_limit=1&apikey=KEY&q=zzz'',
         ''{"total": 5, "movies": []}''),
      (''http://api.rottentomatoes.com/api/public/v1.0/lists/dvds/new_releases.json?apikey=KEY'',
         ''{"movies": [{"id": "13153"}]}''),
      (''http://api.rottentomatoes.com/api/public/v1.0/lists/movies/box_office.json?apikey=KEY'',
         ''{"total": 5, "movies": []}''),
      (''plain'', ''[]''),
      (''gzipped'', CHR 0x1F # CHR 0x8B # ''[]'')]\<close>

section \<open>Properties\<close>

subsection \<open>Evaluating the library functions\<close>

lemma str_nat_small: "n < 10 \<Longrightarrow> str_nat n = [digit_char n]"
  by (simp add: str_nat.simps)

lemma str_nat_large: "\<not> n < 10 \<Longrightarrow> str_nat n = str_nat (n div 10) @ [digit_char (n mod 10)]"
  by (subst str_nat.simps) simp

lemmas str_eval = str_int_def str_nat_small str_nat_large digit_char_def

lemmas quote_eval = quote_plus_def quote_def replace_char_def always_safe_def
  percent_hex_def hex_digit_def

lemmas stub_eval = stub_env_def serve_def stub_gunzip_def stub_loads_def MAX_WBITS_def

lemmas url_eval = urlencode_def query_pair_def py_str_def quote_eval str_eval

lemma stub_library: "gzip_json_library (stub_env pages)"
  by (simp add: gzip_json_library_def stub_env_def stub_gunzip_def stub_loads_def MAX_WBITS_def)


subsection \<open>Fetch and decode\<close>

lemma json_not_gzip:
  assumes "gzip_json_library env" and "json_loads env b = Some v"
  shows "zlib_decompress env b (16 + MAX_WBITS) = None"
proof (cases "zlib_decompress env b (16 + MAX_WBITS)")
  case None
  then show ?thesis .
next
  case (Some plain)
  with assms(1) have "take 2 b = [CHR 0x1F, CHR 0x8B]"
    unfolding gzip_json_library_def by blast
  then have "take 1 b = [CHR 0x1F]"
    by (cases b) (auto simp: take_Suc_conv_app_nth numeral_2_eq_2)
  moreover from assms have "take 1 b \<noteq> [CHR 0x1F]"
    unfolding gzip_json_library_def by blast
  ultimately show ?thesis by contradiction
qed

text \<open>
  Claim C1. Let \<open>b\<close> be a byte sequence the JSON decoder accepts, with value \<open>v\<close>. If the
  response body is \<open>b\<close>, \<open>load_json_from_url\<close> returns \<open>v\<close>; if the body is a gzip stream
  that decompresses to \<open>b\<close>, it returns the same \<open>v\<close>; and whenever decompression of a body
  fails, the result is that of decoding the body as it came, so the failure itself is
  never the error. The two library facts of \<open>gzip_json_library\<close> are what makes a JSON
  text distinguishable from a gzip stream.
\<close>

theorem load_json_gzip_transparent:
  assumes "gzip_json_library env" and "json_loads env b = Some v"
  shows "(urlopen_read env url = Inr b \<longrightarrow> load_json_from_url env url = Inr v) \<and>
         (urlopen_read env url = Inr g \<and> zlib_decompress env g (16 + MAX_WBITS) = Some b
            \<longrightarrow> load_json_from_url env url = Inr v) \<and>
         (urlopen_read env url = Inr r \<and> zlib_decompress env r (16 + MAX_WBITS) = None
            \<longrightarrow> load_json_from_url env url =
                  (case json_loads env r of None \<Rightarrow> Inl ValueError | Some w \<Rightarrow> Inr w))"
  using json_not_gzip [OF assms] assms(2)
  by (simp add: load_json_from_url_def)

theorem load_json_gzip_transparent_witness:
  "gzip_json_library (stub_env demo_pages) \<and>
   json_loads (stub_env demo_pages) ''[]'' = Some (JArr []) \<and>
   urlopen_read (stub_env demo_pages) ''plain'' = Inr ''[]'' \<and>
   load_json_from_url (stub_env demo_pages) ''plain'' = Inr (JArr []) \<and>
   urlopen_read (stub_env demo_pages) ''gzipped'' = Inr (CHR 0x1F # CHR 0x8B # ''[]'') \<and>
   zlib_decompress (stub_env demo_pages) (CHR 0x1F # CHR 0x8B # ''[]'') (16 + MAX_WBITS)
     = Some ''[]'' \<and>
   load_json_from_url (stub_env demo_pages) ''gzipped'' = Inr (JArr [])"
proof -
  let ?E = "stub_env demo_pages"
  have lib: "gzip_json_library ?E"
    by (rule stub_library)
  have dec: "json_loads ?E ''[]'' = Some (JArr [])"
    by (simp add: stub_eval)
  have p: "urlopen_read ?E ''plain'' = Inr ''[]''"
    by (simp add: stub_eval demo_pages_def)
  have g: "urlopen_read ?E ''gzipped'' = Inr (CHR 0x1F # CHR 0x8B # ''[]'')"
    by (simp add: stub_eval demo_pages_def)
  have z: "zlib_decompress ?E (CHR 0x1F # CHR 0x8B # ''[]'') (16 + MAX_WBITS) = Some ''[]''"
    by (simp add: stub_eval)
  from load_json_gzip_transparent [OF lib dec, where url = "''plain''"] p
  have 1: "load_json_from_url ?E ''plain'' = Inr (JArr [])"
    by blast
  from load_json_gzip_transparent
    [OF lib dec, where url = "''gzipped''" and g = "CHR 0x1F # CHR 0x8B # ''[]''"] g z
  have 2: "load_json_from_url ?E ''gzipped'' = Inr (JArr [])"
    by blast
  from lib dec p g z 1 2 show ?thesis
    by blast
qed

lemmas demo_eval = demo_rt_def demo_pages_def stub_eval url_eval

lemmas method_defs = search_def search_url_def search_kwargs_def lists_rt_def
  lists_request_url_def lists_kwargs_def lists_path_def load_json_from_url_def

subsection \<open>Construction\<close>

lemma demo_rt_init: "RT_init (stub_env pages) None ''KEY'' (PFloat 1) = Inr demo_rt"
  by (simp add: RT_init_def demo_rt_def stub_env_def py_str_def str_eval)

text \<open>
  Claim C2, as stated, fails: with an empty constructor argument, no bundled secret and
  the environment variable \<^verbatim>\<open>RT_KEY\<close> set to the empty string, no source yields a
  non-empty key, and yet construction succeeds, with the empty string as the key.
\<close>

theorem RT_init_accepts_empty_fallback_key:
  "RT_init (stub_env []) (API_KEY None (Some [])) [] (PFloat 1) =
     Inr \<lparr>api_key = [], version = PStr ''1.0'',
          BASE_URL = ''http://api.rottentomatoes.com/api/public/v1.0/'',
          lists_url = ''http://api.rottentomatoes.com/api/public/v1.0/lists'',
          movie_url = ''http://api.rottentomatoes.com/api/public/v1.0/movies''\<rparr>"
  by (simp add: RT_init_def API_KEY_def stub_env_def py_str_def str_eval)

text \<open>
  Claim C2, amended. Construction fails, with the assertion error, exactly when the
  constructor argument is empty and neither the bundled secret nor the environment
  variable supplies a value. In every other case it succeeds, and the key is the
  constructor argument when that is non-empty, else the bundled secret when there is
  one, else the value of the environment variable; a value supplied by the bundled
  secret or the environment is accepted as it is, the empty string included.
\<close>

theorem RT_init_key_resolution:
  "(api_key_arg = [] \<and> bundled = None \<and> rt_key = None
      \<longrightarrow> RT_init env (API_KEY bundled rt_key) api_key_arg version_arg = Inl AssertionError) \<and>
   (api_key_arg \<noteq> [] \<or> bundled \<noteq> None \<or> rt_key \<noteq> None
      \<longrightarrow> (\<exists>self. RT_init env (API_KEY bundled rt_key) api_key_arg version_arg = Inr self \<and>
                  Some (api_key self) =
                    (if api_key_arg \<noteq> [] then Some api_key_arg
                     else if bundled \<noteq> None then bundled else rt_key)))"
  by (cases bundled; cases rt_key) (auto simp: RT_init_def API_KEY_def Let_def)

theorem RT_init_key_resolution_witness:
  "RT_init (stub_env []) (API_KEY None None) [] (PFloat 1) = Inl AssertionError \<and>
   (\<exists>self. RT_init (stub_env []) (API_KEY None (Some [])) [] (PFloat 1) = Inr self \<and>
            Some (api_key self) = Some []) \<and>
   (\<exists>self. RT_init (stub_env []) (API_KEY (Some ''B'') (Some ''E'')) ''A'' (PFloat 1) = Inr self \<and>
            Some (api_key self) = Some ''A'')"
  using RT_init_key_resolution [of "[]" None None "stub_env []" "PFloat 1"]
    RT_init_key_resolution [of "[]" None "Some []" "stub_env []" "PFloat 1"]
    RT_init_key_resolution [of "''A''" "Some ''B''" "Some ''E''" "stub_env []" "PFloat 1"]
  by simp

text \<open>
  Claim C7, as stated, fails: only a float version is converted to a string. An integer
  version is stored as the integer it is; its string form appears in the URLs only.
\<close>

theorem RT_init_keeps_int_version:
  "RT_init (stub_env []) None ''KEY'' (PInt 1) =
     Inr \<lparr>api_key = ''KEY'', version = PInt 1,
          BASE_URL = ''http://api.rottentomatoes.com/api/public/v1/'',
          lists_url = ''http://api.rottentomatoes.com/api/public/v1/lists'',
          movie_url = ''http://api.rottentomatoes.com/api/public/v1/movies''\<rparr> \<and>
   PInt 1 \<noteq> (PStr ''1'' :: nat pyval)"
  by (simp add: RT_init_def stub_env_def py_str_def str_eval)

text \<open>
  Claim C7, amended. Whenever construction succeeds, the three derived URLs are the
  fixed template with \<^verbatim>\<open>str(version)\<close> in the segment after \<^verbatim>\<open>/v\<close>: the base URL, the base
  followed by \<^verbatim>\<open>lists\<close>, and the base followed by \<^verbatim>\<open>movies\<close>. The stored version is the
  string form of a float version; a version of any other type is stored unchanged.
\<close>

theorem RT_init_urls:
  assumes "RT_init env module_key api_key_arg version_arg = Inr self"
  shows "BASE_URL self = ''http://api.rottentomatoes.com/api/public/v'' @ py_str env version_arg @ ''/'' \<and>
         lists_url self = ''http://api.rottentomatoes.com/api/public/v'' @ py_str env version_arg @ ''/lists'' \<and>
         movie_url self = ''http://api.rottentomatoes.com/api/public/v'' @ py_str env version_arg @ ''/movies'' \<and>
         version self = (case version_arg of PFloat x \<Rightarrow> PStr (float_str env x) | _ \<Rightarrow> version_arg)"
  using assms
  by (cases version_arg)
     (auto simp: RT_init_def Let_def py_str_def split: option.splits if_splits)

theorem RT_init_urls_witness:
  "RT_init (stub_env []) None ''KEY'' (PFloat 1) = Inr demo_rt \<and>
   BASE_URL demo_rt = ''http://api.rottentomatoes.com/api/public/v1.0/'' \<and>
   lists_url demo_rt = ''http://api.rottentomatoes.com/api/public/v1.0/lists'' \<and>
   movie_url demo_rt = ''http://api.rottentomatoes.com/api/public/v1.0/movies'' \<and>
   version demo_rt = PStr ''1.0''"
  using RT_init_urls [OF demo_rt_init [of "[]"]] demo_rt_init [of "[]"]
  by (simp add: stub_env_def py_str_def str_eval)

subsection \<open>search and feeling lucky\<close>

text \<open>
  Claim C3, as stated, fails: when the decoded payload is not an object (here the empty
  array) the key is absent from it, and \<open>search\<close> fails with a type error, not with the
  lookup error \<^verbatim>\<open>KeyError\<close>.
\<close>

theorem search_array_payload_type_error:
  "load_json_from_url (stub_env demo_pages) (search_url (stub_env demo_pages) demo_rt ''y'' [])
     = Inr (JArr []) \<and>
   search (stub_env demo_pages) demo_rt ''y'' ''movies'' [] = Inl TypeError \<and>
   search (stub_env demo_pages) demo_rt ''y'' ''movies'' [] \<noteq> Inl KeyError"
  by (simp add: method_defs demo_eval)

text \<open>
  Claim C3, amended. Let the fetch of the search URL decode to \<open>data\<close>. If \<open>data\<close> is an
  object, \<open>search\<close> returns exactly the value at key \<open>datatype\<close>, and it fails with
  \<^verbatim>\<open>KeyError\<close> if and only if the object has no such key. If \<open>data\<close> is not an object,
  \<open>search\<close> fails with \<^verbatim>\<open>TypeError\<close>.
\<close>

theorem search_value_at_key:
  assumes "load_json_from_url env (search_url env self query kwargs) = Inr data"
  shows "(\<forall>kvs. data = JObj kvs \<longrightarrow>
            (\<forall>v. map_of kvs datatype = Some v
               \<longrightarrow> search env self query datatype kwargs = Inr v) \<and>
            (search env self query datatype kwargs = Inl KeyError
               \<longleftrightarrow> map_of kvs datatype = None)) \<and>
         ((\<forall>kvs. data \<noteq> JObj kvs)
            \<longrightarrow> search env self query datatype kwargs = Inl TypeError)"
  using assms
  by (cases data) (auto simp: search_def split: option.splits)

theorem search_value_at_key_witness:
  "load_json_from_url (stub_env demo_pages) (search_url (stub_env demo_pages) demo_rt ''x'' [])
     = Inr (JObj [(''total'', JInt 5), (''movies'', JArr [])]) \<and>
   map_of [(''total'', JInt 5), (''movies'', JArr [])] ''total'' = Some (JInt 5 :: nat json) \<and>
   search (stub_env demo_pages) demo_rt ''x'' ''total'' [] = Inr (JInt 5) \<and>
   search (stub_env demo_pages) demo_rt ''x'' ''movies'' [] = Inr (JArr []) \<and>
   map_of [(''total'', JInt 5 :: nat json), (''movies'', JArr [])] ''links'' = None \<and>
   search (stub_env demo_pages) demo_rt ''x'' ''links'' [] = Inl KeyError"
proof -
  let ?E = "stub_env demo_pages"
  let ?kvs = "[(''total'', JInt 5), (''movies'', JArr [])] :: (string \<times> nat json) list"
  have load: "load_json_from_url ?E (search_url ?E demo_rt ''x'' []) = Inr (JObj ?kvs)"
    by (simp add: method_defs demo_eval)
  have total: "map_of ?kvs ''total'' = Some (JInt 5)"
    and movies: "map_of ?kvs ''movies'' = Some (JArr [])"
    and links: "map_of ?kvs ''links'' = None"
    by simp_all
  from search_value_at_key [OF load, of "''total''"] total
  have 1: "search ?E demo_rt ''x'' ''total'' [] = Inr (JInt 5)"
    by blast
  from search_value_at_key [OF load, of "''movies''"] movies
  have 2: "search ?E demo_rt ''x'' ''movies'' [] = Inr (JArr [])"
    by blast
  from search_value_at_key [OF load, of "''links''"] links
  have 3: "search ?E demo_rt ''x'' ''links'' [] = Inl KeyError"
    by blast
  from load total links 1 2 3 show ?thesis
    by blast
qed

text \<open>
  Claim C4. When \<^verbatim>\<open>search(term, page_limit=1)\<close> returns the sequence \<open>xs\<close>,
  \<open>feeling_lucky term\<close> returns its element 0, and fails with \<^verbatim>\<open>IndexError\<close> when \<open>xs\<close> is
  empty: there is no default value.
\<close>

theorem feeling_lucky_first:
  assumes "search env self search_term ''movies'' [(''page_limit'', PInt 1)] = Inr (JArr xs)"
  shows "(xs = [] \<longrightarrow> feeling_lucky env self search_term = Inl IndexError) \<and>
         (xs \<noteq> [] \<longrightarrow> feeling_lucky env self search_term = Inr (xs ! 0))"
  using assms
  by (simp add: feeling_lucky_def seq_index_def)

theorem feeling_lucky_first_witness:
  "search (stub_env demo_pages) demo_rt ''memento'' ''movies'' [(''page_limit'', PInt 1)]
     = Inr (JArr [JObj [(''id'', JStr ''13153'')]]) \<and>
   feeling_lucky (stub_env demo_pages) demo_rt ''memento'' = Inr (JObj [(''id'', JStr ''13153'')]) \<and>
   search (stub_env demo_pages) demo_rt ''zzz'' ''movies'' [(''page_limit'', PInt 1)]
     = Inr (JArr []) \<and>
   feeling_lucky (stub_env demo_pages) demo_rt ''zzz'' = Inl IndexError"
proof -
  let ?E = "stub_env demo_pages"
  have hit: "search ?E demo_rt ''memento'' ''movies'' [(''page_limit'', PInt 1)]
               = Inr (JArr [JObj [(''id'', JStr ''13153'')]])"
    by (simp add: method_defs demo_eval)
  have miss: "search ?E demo_rt ''zzz'' ''movies'' [(''page_limit'', PInt 1)] = Inr (JArr [])"
    by (simp add: method_defs demo_eval)
  from feeling_lucky_first [OF hit]
  have 1: "feeling_lucky ?E demo_rt ''memento'' = Inr (JObj [(''id'', JStr ''13153'')])"
    by simp
  from feeling_lucky_first [OF miss]
  have 2: "feeling_lucky ?E demo_rt ''zzz'' = Inl IndexError"
    by simp
  from hit miss 1 2 show ?thesis
    by blast
qed

subsection \<open>lists\<close>

text \<open>
  Claim C5. The URL \<open>lists\<close> requests is \<open>lists_url\<close>, then \<^verbatim>\<open>/directory/sub\<close>, or
  \<^verbatim>\<open>/directory\<close> when there is no \<open>sub\<close>, or nothing when there is no \<open>directory\<close>, then
  \<^verbatim>\<open>.json?\<close> and the encoded query options; and \<open>lists\<close> returns what fetching and
  decoding that URL gives, whole.
\<close>

theorem lists_url_forms:
  "lists_request_url env self (Some ''dvds'') (Some ''new_releases'') kwargs
     = lists_url self @ ''/dvds/new_releases.json?'' @ urlencode env (lists_kwargs self kwargs) \<and>
   lists_request_url env self (Some ''dvds'') None kwargs
     = lists_url self @ ''/dvds.json?'' @ urlencode env (lists_kwargs self kwargs) \<and>
   lists_request_url env self None None kwargs
     = lists_url self @ ''.json?'' @ urlencode env (lists_kwargs self kwargs) \<and>
   (directory \<noteq> [] \<and> sub \<noteq> [] \<longrightarrow>
      lists_request_url env self (Some directory) (Some sub) kwargs
        = lists_url self @ ''/'' @ directory @ ''/'' @ sub @ ''.json?''
            @ urlencode env (lists_kwargs self kwargs)) \<and>
   (directory \<noteq> [] \<longrightarrow>
      lists_request_url env self (Some directory) None kwargs
        = lists_url self @ ''/'' @ directory @ ''.json?''
            @ urlencode env (lists_kwargs self kwargs)) \<and>
   lists_request_url env self None (Some sub) kwargs
     = lists_url self @ ''.json?'' @ urlencode env (lists_kwargs self kwargs) \<and>
   lists_rt env self dir_arg sub_arg kwargs
     = load_json_from_url env (lists_request_url env self dir_arg sub_arg kwargs)"
  by (simp add: lists_request_url_def lists_path_def lists_rt_def)

theorem lists_url_forms_witness:
  "lists_request_url (stub_env demo_pages) demo_rt (Some ''dvds'') (Some ''new_releases'') []
     = ''http://api.rottentomatoes.com/api/public/v1.0/lists/dvds/new_releases.json?apikey=KEY'' \<and>
   lists_request_url (stub_env demo_pages) demo_rt (Some ''dvds'') None []
     = ''http://api.rottentomatoes.com/api/public/v1.0/lists/dvds.json?apikey=KEY'' \<and>
   lists_request_url (stub_env demo_pages) demo_rt None None []
     = ''http://api.rottentomatoes.com/api/public/v1.0/lists.json?apikey=KEY'' \<and>
   lists_request_url (stub_env demo_pages) demo_rt (Some ''movies'') (Some ''box_office'')
       [(''page_limit'', PInt 5)]
     = ''http://api.rottentomatoes.com/api/public/v1.0/lists/movies/box_office.json?page_limit=5&apikey=KEY'' \<and>
   lists_rt (stub_env demo_pages) demo_rt (Some ''dvds'') (Some ''new_releases'') []
     = Inr (JObj [(''movies'', JArr [JObj [(''id'', JStr ''13153'')]])])"
proof -
  let ?E = "stub_env demo_pages"
  have q: "urlencode ?E (lists_kwargs demo_rt []) = ''apikey=KEY''"
    by (simp add: lists_kwargs_def demo_eval)
  have q5: "urlencode ?E (lists_kwargs demo_rt [(''page_limit'', PInt 5)])
              = ''page_limit=5&apikey=KEY''"
    by (simp add: lists_kwargs_def demo_eval)
  have l: "lists_url demo_rt = ''http://api.rottentomatoes.com/api/public/v1.0/lists''"
    by (simp add: demo_rt_def)
  have page: "load_json_from_url ?E
      ''http://api.rottentomatoes.com/api/public/v1.0/lists/dvds/new_releases.json?apikey=KEY''
        = Inr (JObj [(''movies'', JArr [JObj [(''id'', JStr ''13153'')]])])"
    by (simp add: load_json_from_url_def demo_eval)
  from lists_url_forms [where env = ?E and self = demo_rt and kwargs = "[]"
      and dir_arg = "Some ''dvds''" and sub_arg = "Some ''new_releases''"] q l page
  have 1: "lists_request_url ?E demo_rt (Some ''dvds'') (Some ''new_releases'') []
     = ''http://api.rottentomatoes.com/api/public/v1.0/lists/dvds/new_releases.json?apikey=KEY''"
    and 2: "lists_request_url ?E demo_rt (Some ''dvds'') None []
     = ''http://api.rottentomatoes.com/api/public/v1.0/lists/dvds.json?apikey=KEY''"
    and 3: "lists_request_url ?E demo_rt None None []
     = ''http://api.rottentomatoes.com/api/public/v1.0/lists.json?apikey=KEY''"
    and 5: "lists_rt ?E demo_rt (Some ''dvds'') (Some ''new_releases'') []
     = Inr (JObj [(''movies'', JArr [JObj [(''id'', JStr ''13153'')]])])"
    by simp_all
  from lists_url_forms [where env = ?E and self = demo_rt and kwargs = "[(''page_limit'', PInt 5)]"
      and directory = "''movies''" and sub = "''box_office''"]
    q5 l
  have 4: "lists_request_url ?E demo_rt (Some ''movies'') (Some ''box_office'')
       [(''page_limit'', PInt 5)]
     = ''http://api.rottentomatoes.com/api/public/v1.0/lists/movies/box_office.json?page_limit=5&apikey=KEY''"
    by simp
  from 1 2 3 4 5 show ?thesis
    by blast
qed

subsection \<open>info\<close>

text \<open>
  Claim C6. \<open>info\<close> accepts an integer or a string id. For an integer \<open>n\<close> the request URL
  is the movie URL, \<^verbatim>\<open>/\<close>, the decimal digits \<^verbatim>\<open>str(n)\<close>, the optional \<^verbatim>\<open>/specific_info\<close>,
  \<^verbatim>\<open>.json?\<close> and the encoded key; for a string id it is the same with the string in
  place of the digits. So \<open>info\<close> of \<open>n\<close> and \<open>info\<close> of the string \<^verbatim>\<open>str(n)\<close> request the
  same URL and return the same result; \<^verbatim>\<open>13153\<close> is the example.
\<close>

theorem info_int_id_as_string:
  "info_url env self (PInt n) specific_info
     = movie_url self @ ''/'' @ str_int n
         @ (case specific_info of None \<Rightarrow> [] | Some s \<Rightarrow> if s = [] then [] else ''/'' @ s)
         @ ''.json?'' @ urlencode env [(''apikey'', PStr (api_key self))] \<and>
   info_url env self (PStr s) specific_info
     = movie_url self @ ''/'' @ s
         @ (case specific_info of None \<Rightarrow> [] | Some s \<Rightarrow> if s = [] then [] else ''/'' @ s)
         @ ''.json?'' @ urlencode env [(''apikey'', PStr (api_key self))] \<and>
   info_url env self (PInt n) specific_info = info_url env self (PStr (str_int n)) specific_info \<and>
   info env self (PInt n) specific_info = info env self (PStr (str_int n)) specific_info \<and>
   info_url env self (PInt 13153) None
     = movie_url self @ ''/13153.json?'' @ urlencode env [(''apikey'', PStr (api_key self))] \<and>
   info_url env self (PInt 13153) specific_info = info_url env self (PStr ''13153'') specific_info \<and>
   info env self (PInt 13153) specific_info = info env self (PStr ''13153'') specific_info \<and>
   info env self id_num specific_info
     = load_json_from_url env (info_url env self id_num specific_info)"
proof -
  have s: "str_int 13153 = ''13153''"
    by (simp add: str_eval)
  have general: "info_url env self (PInt k) specific_info
     = movie_url self @ ''/'' @ str_int k
         @ (case specific_info of None \<Rightarrow> [] | Some s \<Rightarrow> if s = [] then [] else ''/'' @ s)
         @ ''.json?'' @ urlencode env [(''apikey'', PStr (api_key self))]" for k specific_info
    by (cases specific_info) (simp_all add: info_url_def py_str_def)
  have str: "info_url env self (PStr t) specific_info
     = movie_url self @ ''/'' @ t
         @ (case specific_info of None \<Rightarrow> [] | Some s \<Rightarrow> if s = [] then [] else ''/'' @ s)
         @ ''.json?'' @ urlencode env [(''apikey'', PStr (api_key self))]" for t
    by (cases specific_info) (simp_all add: info_url_def py_str_def)
  have same: "info_url env self (PInt k) specific_info
                = info_url env self (PStr (str_int k)) specific_info" for k
    unfolding general str ..
  have "info_url env self (PInt 13153) None
     = movie_url self @ ''/13153.json?'' @ urlencode env [(''apikey'', PStr (api_key self))]"
    unfolding general s by simp
  moreover have "info_url env self (PInt 13153) specific_info
                   = info_url env self (PStr ''13153'') specific_info"
    using same [of 13153] unfolding s .
  ultimately show ?thesis
    using general [of n specific_info] str [of s] same [of n]
    by (simp add: info_def)
qed

theorem info_int_id_as_string_witness:
  "info_url (stub_env []) demo_rt (PInt 13153) None
     = ''http://api.rottentomatoes.com/api/public/v1.0/movies/13153.json?apikey=KEY'' \<and>
   info_url (stub_env []) demo_rt (PStr ''13153'') None
     = ''http://api.rottentomatoes.com/api/public/v1.0/movies/13153.json?apikey=KEY'' \<and>
   info_url (stub_env []) demo_rt (PInt (- 7)) (Some ''cast'')
     = ''http://api.rottentomatoes.com/api/public/v1.0/movies/-7/cast.json?apikey=KEY''"
proof -
  have q: "urlencode (stub_env []) [(''apikey'', PStr (api_key demo_rt))] = ''apikey=KEY''"
    by (simp add: demo_eval)
  have m: "movie_url demo_rt = ''http://api.rottentomatoes.com/api/public/v1.0/movies''"
    by (simp add: demo_rt_def)
  have s: "str_int 13153 = ''13153''" "str_int (- 7) = ''-7''"
    by (simp_all add: str_eval)
  from info_int_id_as_string [where env = "stub_env []" and self = demo_rt and n = 13153
      and specific_info = None and s = "''13153''" and id_num = "PInt 13153"]
  have a: "info_url (stub_env []) demo_rt (PInt 13153) None
             = ''http://api.rottentomatoes.com/api/public/v1.0/movies/13153.json?apikey=KEY''"
    and b: "info_url (stub_env []) demo_rt (PStr ''13153'') None
             = ''http://api.rottentomatoes.com/api/public/v1.0/movies/13153.json?apikey=KEY''"
    unfolding q m s by simp_all
  from info_int_id_as_string [where env = "stub_env []" and self = demo_rt and n = "- 7"
      and specific_info = "Some ''cast''" and s = "''13153''" and id_num = "PInt (- 7)"]
  have c: "info_url (stub_env []) demo_rt (PInt (- 7)) (Some ''cast'')
             = ''http://api.rottentomatoes.com/api/public/v1.0/movies/-7/cast.json?apikey=KEY''"
    unfolding q m s by simp
  from a b c show ?thesis
    by blast
qed

subsection \<open>movies, dvds and new\<close>

text \<open>
  Claim C8. \<open>movies sub options\<close> is \<^verbatim>\<open>lists("movies", sub, options)["movies"]\<close> and
  \<open>dvds sub options\<close> is \<^verbatim>\<open>lists("dvds", sub, options)["movies"]\<close>, for every \<open>sub\<close> and
  every options, errors included.
\<close>

theorem movies_dvds_delegate:
  "movies env self sub kwargs = lists_movies_key env self ''movies'' sub kwargs \<and>
   dvds env self sub kwargs = lists_movies_key env self ''dvds'' sub kwargs"
  by (simp add: movies_def dvds_def lists_movies_key_def)

theorem movies_dvds_delegate_witness:
  "movies (stub_env demo_pages) demo_rt (Some ''box_office'') [] = Inr (JArr []) \<and>
   dvds (stub_env demo_pages) demo_rt (Some ''new_releases'') []
     = Inr (JArr [JObj [(''id'', JStr ''13153'')]]) \<and>
   movies (stub_env demo_pages) demo_rt (Some ''upcoming'') [] = Inl URLError"
proof -
  let ?E = "stub_env demo_pages"
  have "lists_movies_key ?E demo_rt ''movies'' (Some ''box_office'') [] = Inr (JArr [])"
    and "lists_movies_key ?E demo_rt ''dvds'' (Some ''new_releases'') []
           = Inr (JArr [JObj [(''id'', JStr ''13153'')]])"
    and "lists_movies_key ?E demo_rt ''movies'' (Some ''upcoming'') [] = Inl URLError"
    by (simp_all add: lists_movies_key_def method_defs demo_eval)
  with movies_dvds_delegate [of ?E demo_rt "Some ''box_office''" "[]"]
    movies_dvds_delegate [of ?E demo_rt "Some ''new_releases''" "[]"]
    movies_dvds_delegate [of ?E demo_rt "Some ''upcoming''" "[]"]
  show ?thesis
    by simp
qed

text \<open>
  Claim C9. \<open>new\<close> of kind \<^verbatim>\<open>movies\<close> is \<^verbatim>\<open>lists("movies", "opening", options)["movies"]\<close>,
  of kind \<^verbatim>\<open>dvds\<close> it is \<^verbatim>\<open>lists("dvds", "new_releases", options)["movies"]\<close>, and of any
  other kind it returns \<^verbatim>\<open>None\<close> without an error, whatever the environment.
\<close>

theorem new_by_kind:
  "new env self ''movies'' kwargs = lists_movies_key env self ''movies'' (Some ''opening'') kwargs \<and>
   new env self ''dvds'' kwargs = lists_movies_key env self ''dvds'' (Some ''new_releases'') kwargs \<and>
   (kind \<noteq> ''movies'' \<and> kind \<noteq> ''dvds'' \<longrightarrow> new env self kind kwargs = Inr JNull)"
  by (simp add: new_def lists_movies_key_def)

theorem new_by_kind_witness:
  "''tv'' \<noteq> ''movies'' \<and> ''tv'' \<noteq> ''dvds'' \<and>
   new (stub_env demo_pages) demo_rt ''tv'' [] = Inr JNull \<and>
   new (stub_env demo_pages) demo_rt ''dvds'' [] = Inr (JArr [JObj [(''id'', JStr ''13153'')]])"
proof -
  have other: "''tv'' \<noteq> ''movies'' \<and> ''tv'' \<noteq> ''dvds''"
    by simp
  have d: "lists_movies_key (stub_env demo_pages) demo_rt ''dvds'' (Some ''new_releases'') []
             = Inr (JArr [JObj [(''id'', JStr ''13153'')]])"
    by (simp add: lists_movies_key_def method_defs demo_eval)
  from new_by_kind [where env = "stub_env demo_pages" and self = demo_rt and kwargs = "[]"
      and kind = "''tv''"] other d
  show ?thesis
    by simp
qed

subsection \<open>The API key in every request\<close>



























end
